theory Spec2Isabelle
  imports Complex_Main
begin

section \<open>StorySplicer: world state, trigger engine, sessions and the tool surface\<close>

text \<open>
  A shallow embedding of the parts of the repository that decide the claims:
  \<^item> the models \<open>Character\<close>, \<open>Item\<close>, \<open>Area\<close> (\<open>src/db/models\<close>) over the
    relations created by the initial migration (\<open>src/db/migrate.js\<close>);
  \<^item> the trigger engine (\<open>src/mcp/handlers/triggers.js\<close>);
  \<^item> the session store (\<open>src/mcp/handlers/auth.js\<close>);
  \<^item> the tool handlers (\<open>src/mcp/tools/character.js\<close>, \<open>src/mcp/tools/item.js\<close>) and
    the WebSocket connection callback (\<open>src/mcp/server.js\<close>).

  Conventions. Every \<open>await\<close>ed call is a function from the database to a new database;
  a thrown \<open>Error\<close> is a value of \<open>error\<close>. JavaScript numbers are idealised as
  real numbers (no NaN, no rounding of the float itself). Strings are lists of 8-bit
  characters, so \<open>toLowerCase\<close> is modelled on ASCII letters only.
\<close>

subsection \<open>JavaScript strings and truthiness\<close>

text \<open>
  An upper-case ASCII letter (code 65 to 90) has bit 5 clear; its lower-case letter is
  the code plus 32, that is, the same bits with bit 5 set.
\<close>

fun toLowerChar :: "char \<Rightarrow> char" where
  "toLowerChar (Char b0 b1 b2 b3 b4 b5 b6 b7) =
     (let n = (of_char (Char b0 b1 b2 b3 b4 b5 b6 b7) :: nat) in
        if 65 \<le> n \<and> n \<le> 90 then Char b0 b1 b2 b3 b4 True b6 b7
        else Char b0 b1 b2 b3 b4 b5 b6 b7)"

definition toLowerCase :: "string \<Rightarrow> string" where
  "toLowerCase s = map toLowerChar s"

text \<open>\<open>s.startsWith(p)\<close>\<close>

fun startsWith :: "string \<Rightarrow> string \<Rightarrow> bool" where
  "startsWith s [] = True"
| "startsWith [] (p # ps) = False"
| "startsWith (c # cs) (p # ps) = (c = p \<and> startsWith cs ps)"

text \<open>\<open>s.includes(k)\<close>: \<open>k\<close> occurs in \<open>s\<close> as a contiguous substring.\<close>

fun str_includes :: "string \<Rightarrow> string \<Rightarrow> bool" where
  "str_includes [] k = (k = [])"
| "str_includes (c # cs) k = (startsWith (c # cs) k \<or> str_includes cs k)"

text \<open>
  Truthiness of an optional JSON field: \<open>undefined\<close> (here \<open>None\<close>), the empty string
  and the number \<open>0\<close> are falsy.
\<close>

fun truthy_str :: "string option \<Rightarrow> bool" where
  "truthy_str None = False"
| "truthy_str (Some s) = (s \<noteq> [])"

fun truthy_num :: "nat option \<Rightarrow> bool" where
  "truthy_num None = False"
| "truthy_num (Some n) = (n \<noteq> 0)"

subsection \<open>Trigger conditions and events\<close>

text \<open>
  \<open>condition.keywords\<close> is either an array of strings or a single string
  (\<open>Array.isArray(condition.keywords) ? condition.keywords : [condition.keywords]\<close>).
\<close>

datatype kw_value = KwArray "string list" | KwString string

fun keywords_truthy :: "kw_value option \<Rightarrow> bool" where
  "keywords_truthy None = False"
| "keywords_truthy (Some (KwArray ks)) = True"
| "keywords_truthy (Some (KwString k)) = (k \<noteq> [])"

fun keywords_list :: "kw_value \<Rightarrow> string list" where
  "keywords_list (KwArray ks) = ks"
| "keywords_list (KwString k) = [k]"

record cond_object =
  cond_type :: "string option"
  cond_keywords :: "kw_value option"
  cond_character_id :: "nat option"
  cond_item_id :: "nat option"

text \<open>
  A stored condition is a string, an object, or some other JSON value (a number, a
  boolean, or absent), for which \<open>shouldTriggerFire\<close> answers \<open>false\<close>.
\<close>

datatype condition = CondString string | CondObject cond_object | CondOther

text \<open>The \<open>eventData\<close> object: each tool fills the fields it knows.\<close>

record event_data =
  ev_character_id :: "nat option"
  ev_item_id :: "nat option"
  ev_text :: "string option"

text \<open>\<open>eventData.text || ''\<close>\<close>

fun text_or_empty :: "string option \<Rightarrow> string" where
  "text_or_empty None = []"
| "text_or_empty (Some s) = s"

text \<open>
  \<open>shouldTriggerFire\<close>, on the trigger's condition. The keyword branch returns at once:
  the checks of \<open>character_id\<close> and \<open>item_id\<close> below it are not reached.
\<close>

fun shouldTriggerFire_cond :: "condition \<Rightarrow> string \<Rightarrow> event_data \<Rightarrow> bool" where
  "shouldTriggerFire_cond (CondString s) eventType eventData = (s = eventType)"
| "shouldTriggerFire_cond (CondObject c) eventType eventData =
     (if truthy_str (cond_type c) \<and> cond_type c \<noteq> Some eventType then False
      else if eventType = ''character_speech'' \<and> keywords_truthy (cond_keywords c) then
        (let text = toLowerCase (text_or_empty (ev_text eventData)) in
           list_ex (\<lambda>keyword. str_includes text (toLowerCase keyword))
             (keywords_list (the (cond_keywords c))))
      else if truthy_num (cond_character_id c)
              \<and> cond_character_id c \<noteq> ev_character_id eventData then False
      else if truthy_num (cond_item_id c)
              \<and> cond_item_id c \<noteq> ev_item_id eventData then False
      else True)"
| "shouldTriggerFire_cond CondOther eventType eventData = False"

text \<open>
  The object-form condition as the specification words it: the type is equal, and the
  keyword test holds when keywords are present on a speech event, and each of
  \<open>character_id\<close>, \<open>item_id\<close> that is present equals the event's field.
\<close>

definition spec_condition_matches :: "cond_object \<Rightarrow> string \<Rightarrow> event_data \<Rightarrow> bool" where
  "spec_condition_matches c eventType eventData \<longleftrightarrow>
     cond_type c = Some eventType
     \<and> (case cond_keywords c of
          None \<Rightarrow> True
        | Some ks \<Rightarrow>
            if eventType = ''character_speech'' then
              list_ex (\<lambda>keyword. str_includes (toLowerCase (text_or_empty (ev_text eventData)))
                                    (toLowerCase keyword)) (keywords_list ks)
            else True)
     \<and> (case cond_character_id c of
          None \<Rightarrow> True | Some i \<Rightarrow> ev_character_id eventData = Some i)
     \<and> (case cond_item_id c of
          None \<Rightarrow> True | Some i \<Rightarrow> ev_item_id eventData = Some i)"

subsection \<open>The relations and their constraints\<close>

text \<open>
  The columns the modelled operations read or write, from the initial migration. A
  percentage column is \<open>NUMERIC(5,2) CHECK (x >= 0 AND x <= 100)\<close>: a written value is
  rounded to two decimals, rejected if it does not fit five digits, and then checked.
\<close>

definition round_half_away :: "real \<Rightarrow> int" where
  "round_half_away x = (if 0 \<le> x then \<lfloor>x + 1 / 2\<rfloor> else - \<lfloor>- x + 1 / 2\<rfloor>)"

definition round_2dp :: "real \<Rightarrow> real" where
  "round_2dp x = of_int (round_half_away (x * 100)) / 100"

definition numeric_5_2 :: "real \<Rightarrow> real option" where
  "numeric_5_2 x = (if \<bar>round_2dp x\<bar> < 1000 then Some (round_2dp x) else None)"

definition pct_check :: "real \<Rightarrow> bool" where
  "pct_check x \<longleftrightarrow> 0 \<le> x \<and> x \<le> 100"

datatype db_violation =
    NumericOverflow | ValueTooLong | NotNullViolation | CheckViolation
  | ForeignKeyViolation | UniqueViolation

text \<open>
  The errors thrown: the handlers' own \<open>new Error(...)\<close> messages, the rejection of a
  query by the database, and the \<open>TypeError\<close> of reading a property of \<open>null\<close>.
\<close>

datatype error =
    CharacterNotFound nat
  | ItemNotFound nat
  | ItemNotInCharactersArea
  | CharacterNotHoldingItem
  | CharacterNotInAnyArea
  | CharacterAlreadyClaimed
  | DbError db_violation
  | TypeError

record memory_entry =
  mem_action :: string
  mem_result :: string
  mem_timestamp :: string

record damage_entry =
  dmg_part :: string
  dmg_type :: string
  dmg_severity :: real

datatype character_class = Story | Minor

record character =
  ch_world_id :: nat
  ch_name :: string
  ch_memory :: "memory_entry list"
  ch_nutrition :: real
  ch_hydration :: real
  ch_damage :: "damage_entry list"
  ch_tiredness :: real
  ch_alertness :: real
  ch_current_area_id :: "nat option"
  ch_owner_id :: "string option"
  ch_character_class :: character_class

record item =
  it_world_id :: nat
  it_name :: string
  it_description :: string
  it_properties :: "(string \<times> string) list"
  it_current_area_id :: "nat option"
  it_held_by_character_id :: "nat option"
  it_held_location :: "string option"

text \<open>The template of an \<open>add_item\<close> reaction (\<open>reaction.item\<close>).\<close>

record item_template =
  tpl_name :: "string option"
  tpl_description :: "string option"
  tpl_properties :: "(string \<times> string) list option"

text \<open>
  A reaction is a JSON object told apart by its \<open>type\<close>; every other field may be
  absent. \<open>UnknownReaction\<close> is any other \<open>type\<close> (the \<open>default\<close> branch).
\<close>

datatype reaction =
    add_item "item_template option"
  | remove_item "nat option"
  | add_exit "string option" "nat option"
  | remove_exit "string option"
  | modify_description "string option" "string option"
  | modify_temperature "real option" "real option"
  | UnknownReaction string

record trigger =
  tr_condition :: condition
  tr_reactions :: "reaction list"
  tr_one_time :: bool

record area =
  ar_world_id :: nat
  ar_name :: string
  ar_description :: string
  ar_temperature :: real
  ar_exits :: "string \<rightharpoonup> nat"
  ar_triggers :: "trigger list"

text \<open>
  The database. \<open>next_item_id\<close> is the \<open>SERIAL\<close> counter of \<open>items\<close>, modelled as
  advancing on each successful insert. \<open>trigger_events\<close> is a history variable, not a
  table: it records, in order, every event handed to the trigger engine (each call of
  \<open>executeTriggers\<close>, with its area and event type).
\<close>

record db =
  worlds :: "nat set"
  areas :: "nat \<rightharpoonup> area"
  characters :: "nat \<rightharpoonup> character"
  items :: "nat \<rightharpoonup> item"
  next_item_id :: nat
  trigger_events :: "(nat \<times> string) list"

definition shouldTriggerFire :: "trigger \<Rightarrow> string \<Rightarrow> event_data \<Rightarrow> bool" where
  "shouldTriggerFire trg eventType eventData =
     shouldTriggerFire_cond (tr_condition trg) eventType eventData"

subsection \<open>Character model\<close>

text \<open>
  The \<open>data\<close> object of \<open>Character.update\<close>, restricted to the fields its modelled
  callers pass. \<open>None\<close> is \<open>undefined\<close> (the field is skipped); for a nullable column
  \<open>Some None\<close> is \<open>null\<close>.
\<close>

record character_patch =
  p_nutrition :: "real option"
  p_hydration :: "real option"
  p_tiredness :: "real option"
  p_alertness :: "real option"
  p_current_area_id :: "nat option option"
  p_owner_id :: "string option option"
  p_memory :: "memory_entry list option"
  p_damage :: "damage_entry list option"

definition no_character_patch :: character_patch where
  "no_character_patch =
     \<lparr>p_nutrition = None, p_hydration = None, p_tiredness = None, p_alertness = None,
      p_current_area_id = None, p_owner_id = None, p_memory = None, p_damage = None\<rparr>"

text \<open>The value a numeric column takes: the old one, or the coerced new one.\<close>

fun coerce_pct :: "real option \<Rightarrow> real \<Rightarrow> real option" where
  "coerce_pct None old = Some old"
| "coerce_pct (Some v) old = numeric_5_2 v"

fun or_old :: "'a option \<Rightarrow> 'a \<Rightarrow> 'a" where
  "or_old None old = old"
| "or_old (Some v) old = v"



text \<open>\<open>owner_id VARCHAR(255)\<close>\<close>

fun owner_fits :: "string option option \<Rightarrow> bool" where
  "owner_fits (Some (Some s)) = (length s \<le> 255)"
| "owner_fits _ = True"

text \<open>\<open>current_area_id INTEGER REFERENCES areas(id)\<close>\<close>

fun area_ref_ok :: "db \<Rightarrow> nat option option \<Rightarrow> bool" where
  "area_ref_ok d (Some (Some a)) = (a \<in> dom (areas d))"
| "area_ref_ok d _ = True"

text \<open>
  The row after \<open>UPDATE characters SET ...\<close>, or the violation that rejects the
  statement: coercion of the values first, then the row's \<open>CHECK\<close>s, then the foreign
  key.
\<close>

definition updated_character :: "db \<Rightarrow> character_patch \<Rightarrow> character \<Rightarrow> error + character" where
  "updated_character d p c =
     (case (coerce_pct (p_nutrition p) (ch_nutrition c),
            coerce_pct (p_hydration p) (ch_hydration c),
            coerce_pct (p_tiredness p) (ch_tiredness c),
            coerce_pct (p_alertness p) (ch_alertness c)) of
        (Some n, Some h, Some t, Some a) \<Rightarrow>
          if \<not> owner_fits (p_owner_id p) then Inl (DbError ValueTooLong)
          else if \<not> (pct_check n \<and> pct_check h \<and> pct_check t \<and> pct_check a)
            then Inl (DbError CheckViolation)
          else if \<not> area_ref_ok d (p_current_area_id p) then Inl (DbError ForeignKeyViolation)
          else Inr (c\<lparr>ch_nutrition := n, ch_hydration := h, ch_tiredness := t,
                       ch_alertness := a,
                       ch_current_area_id := or_old (p_current_area_id p) (ch_current_area_id c),
                       ch_owner_id := or_old (p_owner_id p) (ch_owner_id c),
                       ch_memory := or_old (p_memory p) (ch_memory c),
                       ch_damage := or_old (p_damage p) (ch_damage c)\<rparr>)
      | _ \<Rightarrow> Inl (DbError NumericOverflow))"

definition Character_findById :: "db \<Rightarrow> nat \<Rightarrow> character option" where
  "Character_findById d cid = characters d cid"

text \<open>
  \<open>Character.update(id, data)\<close>: with no field to set it is \<open>findById\<close>; an \<open>UPDATE\<close>
  that matches no row returns \<open>null\<close> without evaluating any constraint.
\<close>

definition Character_update ::
  "db \<Rightarrow> nat \<Rightarrow> character_patch \<Rightarrow> error + (character option \<times> db)" where
  "Character_update d cid p =
     (if p = no_character_patch then Inr (Character_findById d cid, d)
      else case characters d cid of
        None \<Rightarrow> Inr (None, d)
      | Some c \<Rightarrow>
          (case updated_character d p c of
             Inl e \<Rightarrow> Inl e
           | Inr c' \<Rightarrow> Inr (Some c', d\<lparr>characters := (characters d)(cid \<mapsto> c')\<rparr>)))"

text \<open>
  \<open>Character.addMemory(id, memoryEntry, maxRecent)\<close>: push the entry with its timestamp;
  if the array is now longer than \<open>maxRecent\<close>, \<open>shift()\<close> once. The timestamp
  (\<open>new Date().toISOString()\<close>) is an input of the model.
\<close>

definition Character_addMemory ::
  "db \<Rightarrow> nat \<Rightarrow> string \<times> string \<Rightarrow> string \<Rightarrow> nat \<Rightarrow> error + (character option \<times> db)" where
  "Character_addMemory d cid memoryEntry now maxRecent =
     (case Character_findById d cid of
        None \<Rightarrow> Inr (None, d)
      | Some c \<Rightarrow>
          (let pushed = ch_memory c @
                 [\<lparr>mem_action = fst memoryEntry, mem_result = snd memoryEntry,
                   mem_timestamp = now\<rparr>];
               memory = (if length pushed > maxRecent then tl pushed else pushed)
           in Character_update d cid (no_character_patch\<lparr>p_memory := Some memory\<rparr>)))"

text \<open>\<open>character.character_class === 'story' ? 5 : 3\<close>\<close>

fun memory_cap :: "character_class \<Rightarrow> nat" where
  "memory_cap Story = 5"
| "memory_cap Minor = 3"

subsection \<open>Item model\<close>

text \<open>
  The \<open>data\<close> of \<open>Item.update\<close> as \<open>moveToArea\<close> and \<open>giveToCharacter\<close> build it.
\<close>

record item_patch =
  q_current_area_id :: "nat option option"
  q_held_by_character_id :: "nat option option"
  q_held_location :: "string option option"

definition no_item_patch :: item_patch where
  "no_item_patch =
     \<lparr>q_current_area_id = None, q_held_by_character_id = None, q_held_location = None\<rparr>"

text \<open>\<open>held_location VARCHAR(50)\<close>\<close>

fun location_fits :: "string option option \<Rightarrow> bool" where
  "location_fits (Some (Some s)) = (length s \<le> 50)"
| "location_fits _ = True"

text \<open>\<open>held_by_character_id\<close> references \<open>characters(id)\<close>\<close>

fun character_ref_ok :: "db \<Rightarrow> nat option option \<Rightarrow> bool" where
  "character_ref_ok d (Some (Some c)) = (c \<in> dom (characters d))"
| "character_ref_ok d _ = True"

definition updated_item :: "db \<Rightarrow> item_patch \<Rightarrow> item \<Rightarrow> error + item" where
  "updated_item d p i =
     (if \<not> location_fits (q_held_location p) then Inl (DbError ValueTooLong)
      else if \<not> (area_ref_ok d (q_current_area_id p)
                 \<and> character_ref_ok d (q_held_by_character_id p))
        then Inl (DbError ForeignKeyViolation)
      else Inr (i\<lparr>it_current_area_id := or_old (q_current_area_id p) (it_current_area_id i),
                   it_held_by_character_id :=
                     or_old (q_held_by_character_id p) (it_held_by_character_id i),
                   it_held_location := or_old (q_held_location p) (it_held_location i)\<rparr>))"

definition Item_findById :: "db \<Rightarrow> nat \<Rightarrow> item option" where
  "Item_findById d iid = items d iid"

definition Item_update :: "db \<Rightarrow> nat \<Rightarrow> item_patch \<Rightarrow> error + (item option \<times> db)" where
  "Item_update d iid p =
     (if p = no_item_patch then Inr (Item_findById d iid, d)
      else case items d iid of
        None \<Rightarrow> Inr (None, d)
      | Some i \<Rightarrow>
          (case updated_item d p i of
             Inl e \<Rightarrow> Inl e
           | Inr i' \<Rightarrow> Inr (Some i', d\<lparr>items := (items d)(iid \<mapsto> i')\<rparr>)))"

definition Item_moveToArea :: "db \<Rightarrow> nat \<Rightarrow> nat \<Rightarrow> error + (item option \<times> db)" where
  "Item_moveToArea d iid area_id =
     Item_update d iid
       \<lparr>q_current_area_id = Some (Some area_id), q_held_by_character_id = Some None,
        q_held_location = Some None\<rparr>"

definition Item_giveToCharacter ::
  "db \<Rightarrow> nat \<Rightarrow> nat \<Rightarrow> string \<Rightarrow> error + (item option \<times> db)" where
  "Item_giveToCharacter d iid character_id location =
     Item_update d iid
       \<lparr>q_current_area_id = Some None, q_held_by_character_id = Some (Some character_id),
        q_held_location = Some (Some location)\<rparr>"

text \<open>
  \<open>Item.create\<close>: \<open>world_id\<close> references \<open>worlds(id)\<close>, \<open>name\<close> is
  \<open>VARCHAR(255) NOT NULL\<close> (an \<open>undefined\<close> name is sent as \<open>NULL\<close>),
  \<open>current_area_id\<close> references \<open>areas(id)\<close>. The new row is neither held nor placed
  in a hand.
\<close>

definition Item_create ::
  "db \<Rightarrow> nat \<Rightarrow> string option \<Rightarrow> string \<Rightarrow> (string \<times> string) list \<Rightarrow> nat option
     \<Rightarrow> error + (nat \<times> db)" where
  "Item_create d world_id name description properties current_area_id =
     (case name of
        None \<Rightarrow> Inl (DbError NotNullViolation)
      | Some nm \<Rightarrow>
          if length nm > 255 then Inl (DbError ValueTooLong)
          else if next_item_id d \<in> dom (items d) then Inl (DbError UniqueViolation)
          else if world_id \<notin> worlds d then Inl (DbError ForeignKeyViolation)
          else if \<not> area_ref_ok d (Some current_area_id)
            then Inl (DbError ForeignKeyViolation)
          else Inr (next_item_id d,
                    d\<lparr>items := (items d)(next_item_id d \<mapsto>
                         \<lparr>it_world_id = world_id, it_name = nm, it_description = description,
                          it_properties = properties, it_current_area_id = current_area_id,
                          it_held_by_character_id = None, it_held_location = None\<rparr>),
                       next_item_id := Suc (next_item_id d)\<rparr>))"

definition Item_delete :: "db \<Rightarrow> nat \<Rightarrow> db" where
  "Item_delete d iid = d\<lparr>items := (items d)(iid := None)\<rparr>"

subsection \<open>Area model\<close>

record area_patch =
  a_description :: "string option"
  a_temperature :: "real option"
  a_exits :: "(string \<rightharpoonup> nat) option"
  a_triggers :: "trigger list option"

definition no_area_patch :: area_patch where
  "no_area_patch =
     \<lparr>a_description = None, a_temperature = None, a_exits = None, a_triggers = None\<rparr>"

definition Area_findById :: "db \<Rightarrow> nat \<Rightarrow> area option" where
  "Area_findById d aid = areas d aid"

text \<open>\<open>temperature NUMERIC(5,2)\<close>, with no \<open>CHECK\<close>.\<close>

definition updated_area :: "area_patch \<Rightarrow> area \<Rightarrow> error + area" where
  "updated_area p a =
     (case coerce_pct (a_temperature p) (ar_temperature a) of
        None \<Rightarrow> Inl (DbError NumericOverflow)
      | Some t \<Rightarrow>
          Inr (a\<lparr>ar_description := or_old (a_description p) (ar_description a),
                  ar_temperature := t,
                  ar_exits := or_old (a_exits p) (ar_exits a),
                  ar_triggers := or_old (a_triggers p) (ar_triggers a)\<rparr>))"

text \<open>
  \<open>Area.update(id, data)\<close>. The test \<open>updates.length === 0\<close> is written on the fields of
  the patch, since a map of exits has no decidable equality.
\<close>

definition Area_update :: "db \<Rightarrow> nat \<Rightarrow> area_patch \<Rightarrow> error + (area option \<times> db)" where
  "Area_update d aid p =
     (if a_description p = None \<and> a_temperature p = None \<and> a_exits p = None
         \<and> a_triggers p = None
      then Inr (Area_findById d aid, d)
      else case areas d aid of
        None \<Rightarrow> Inr (None, d)
      | Some a \<Rightarrow>
          (case updated_area p a of
             Inl e \<Rightarrow> Inl e
           | Inr a' \<Rightarrow> Inr (Some a', d\<lparr>areas := (areas d)(aid \<mapsto> a')\<rparr>)))"

subsection \<open>Trigger engine\<close>

text \<open>
  One reaction of \<open>executeReactions\<close>, on the database and the \<open>updates\<close> object
  collected so far. \<open>area\<close> is the row read once before the loop; reading a field of it
  when it is \<open>null\<close> throws. \<open>add_exit\<close> and \<open>remove_exit\<close> both start from
  \<open>area.exits\<close>, not from the exits already collected.
\<close>

fun apply_reaction ::
  "nat \<Rightarrow> area option \<Rightarrow> reaction \<Rightarrow> db \<times> area_patch \<Rightarrow> error + (db \<times> area_patch)" where
  "apply_reaction areaId area (add_item None) (d, u) = Inr (d, u)"
| "apply_reaction areaId None (add_item (Some t)) (d, u) = Inl TypeError"
| "apply_reaction areaId (Some a) (add_item (Some t)) (d, u) =
     (case Item_create d (ar_world_id a) (tpl_name t) (text_or_empty (tpl_description t))
             (case tpl_properties t of None \<Rightarrow> [] | Some ps \<Rightarrow> ps) (Some areaId) of
        Inl e \<Rightarrow> Inl e
      | Inr (new_id, d') \<Rightarrow> Inr (d', u))"
| "apply_reaction areaId area (remove_item None) (d, u) = Inr (d, u)"
| "apply_reaction areaId area (remove_item (Some item_id)) (d, u) =
     (if item_id \<noteq> 0 then Inr (Item_delete d item_id, u) else Inr (d, u))"
| "apply_reaction areaId area (add_exit direction target_area_id) (d, u) =
     (if truthy_str direction \<and> truthy_num target_area_id then
        (case area of
           None \<Rightarrow> Inl TypeError
         | Some a \<Rightarrow>
             Inr (d, u\<lparr>a_exits := Some ((ar_exits a)(the direction \<mapsto> the target_area_id))\<rparr>))
      else Inr (d, u))"
| "apply_reaction areaId area (remove_exit direction) (d, u) =
     (if truthy_str direction then
        (case area of
           None \<Rightarrow> Inl TypeError
         | Some a \<Rightarrow> Inr (d, u\<lparr>a_exits := Some ((ar_exits a)(the direction := None))\<rparr>))
      else Inr (d, u))"
| "apply_reaction areaId area (modify_description new_description append_description) (d, u) =
     (if truthy_str new_description then Inr (d, u\<lparr>a_description := new_description\<rparr>)
      else if truthy_str append_description then
        (case area of
           None \<Rightarrow> Inl TypeError
         | Some a \<Rightarrow>
             Inr (d, u\<lparr>a_description :=
                         Some (ar_description a @ [CHR 0x0A] @ the append_description)\<rparr>))
      else Inr (d, u))"
| "apply_reaction areaId area (modify_temperature (Some t) temperature_delta) (d, u) =
     Inr (d, u\<lparr>a_temperature := Some t\<rparr>)"
| "apply_reaction areaId area (modify_temperature None None) (d, u) = Inr (d, u)"
| "apply_reaction areaId None (modify_temperature None (Some delta)) (d, u) = Inl TypeError"
| "apply_reaction areaId (Some a) (modify_temperature None (Some delta)) (d, u) =
     Inr (d, u\<lparr>a_temperature := Some (ar_temperature a + delta)\<rparr>)"
| "apply_reaction areaId area (UnknownReaction ty) (d, u) = Inr (d, u)"

text \<open>
  The loop over the reactions. A throw leaves the loop; what the earlier reactions wrote
  to the database stays written.
\<close>

fun apply_reactions ::
  "nat \<Rightarrow> area option \<Rightarrow> reaction list \<Rightarrow> db \<times> area_patch
     \<Rightarrow> error option \<times> db \<times> area_patch" where
  "apply_reactions areaId area [] (d, u) = (None, d, u)"
| "apply_reactions areaId area (r # rs) (d, u) =
     (case apply_reaction areaId area r (d, u) of
        Inl e \<Rightarrow> (Some e, d, u)
      | Inr (d', u') \<Rightarrow> apply_reactions areaId area rs (d', u'))"

definition area_patch_empty :: "area_patch \<Rightarrow> bool" where
  "area_patch_empty u \<longleftrightarrow>
     a_description u = None \<and> a_temperature u = None \<and> a_exits u = None \<and> a_triggers u = None"

definition executeReactions ::
  "db \<Rightarrow> nat \<Rightarrow> reaction list \<Rightarrow> event_data \<Rightarrow> error option \<times> db" where
  "executeReactions d areaId reactions eventData =
     (if reactions = [] then (None, d)
      else case apply_reactions areaId (Area_findById d areaId) reactions (d, no_area_patch) of
        (Some e, d', u) \<Rightarrow> (Some e, d')
      | (None, d', u) \<Rightarrow>
          if area_patch_empty u then (None, d')
          else (case Area_update d' areaId u of
                  Inl e \<Rightarrow> (Some e, d')
                | Inr (a', d'') \<Rightarrow> (None, d'')))"

text \<open>
  \<open>triggers.filter(t => t !== trigger)\<close> compares object identities: the elements of the
  parsed array are distinct objects, so a trigger is identified by its position.
\<close>

definition triggers_without :: "nat \<Rightarrow> trigger list \<Rightarrow> trigger list" where
  "triggers_without i triggers = map snd (filter (\<lambda>(j, t). j \<noteq> i) (enumerate 0 triggers))"

text \<open>
  The second loop of \<open>executeTriggers\<close>. \<open>triggers\<close> is the array read when the event
  arrived; every removal filters that same array.
\<close>

fun run_matched ::
  "db \<Rightarrow> nat \<Rightarrow> trigger list \<Rightarrow> (nat \<times> trigger) list \<Rightarrow> event_data \<Rightarrow> error option \<times> db" where
  "run_matched d areaId triggers [] eventData = (None, d)"
| "run_matched d areaId triggers ((i, trg) # rest) eventData =
     (case executeReactions d areaId (tr_reactions trg) eventData of
        (Some e, d') \<Rightarrow> (Some e, d')
      | (None, d') \<Rightarrow>
          if tr_one_time trg then
            (case Area_update d' areaId
                    (no_area_patch\<lparr>a_triggers := Some (triggers_without i triggers)\<rparr>) of
               Inl e \<Rightarrow> (Some e, d')
             | Inr (a', d'') \<Rightarrow> run_matched d'' areaId triggers rest eventData)
          else run_matched d' areaId triggers rest eventData)"

definition matchedTriggers :: "trigger list \<Rightarrow> string \<Rightarrow> event_data \<Rightarrow> (nat \<times> trigger) list" where
  "matchedTriggers triggers eventType eventData =
     filter (\<lambda>(i, trg). shouldTriggerFire trg eventType eventData) (enumerate 0 triggers)"

definition executeTriggers :: "db \<Rightarrow> nat \<Rightarrow> string \<Rightarrow> event_data \<Rightarrow> error option \<times> db" where
  "executeTriggers d areaId eventType eventData =
     (let d0 = d\<lparr>trigger_events := trigger_events d @ [(areaId, eventType)]\<rparr> in
        case Area_findById d0 areaId of
          None \<Rightarrow> (None, d0)
        | Some a \<Rightarrow>
            if ar_triggers a = [] then (None, d0)
            else run_matched d0 areaId (ar_triggers a)
                   (matchedTriggers (ar_triggers a) eventType eventData) eventData)"

subsection \<open>Tool handlers\<close>

text \<open>
  Each case of \<open>handleCharacterTool\<close> and \<open>handleItemTool\<close> that writes. The result is
  the error thrown, if any, and the database as the handler left it (a throw undoes
  nothing that was written before it). The arguments a tool's schema requires are
  taken as present and of the declared type; \<open>now\<close> is the timestamp that
  \<open>addMemory\<close> reads from the clock.
\<close>

definition event_of :: "nat option \<Rightarrow> nat option \<Rightarrow> string option \<Rightarrow> event_data" where
  "event_of c i t = \<lparr>ev_character_id = c, ev_item_id = i, ev_text = t\<rparr>"




definition character_add_memory ::
  "db \<Rightarrow> nat \<Rightarrow> string \<Rightarrow> string \<Rightarrow> string \<Rightarrow> error option \<times> db" where
  "character_add_memory d character_id action result now =
     (case Character_findById d character_id of
        None \<Rightarrow> (Some (CharacterNotFound character_id), d)
      | Some character \<Rightarrow>
          (case Character_addMemory d character_id (action, result) now
                  (memory_cap (ch_character_class character)) of
             Inl e \<Rightarrow> (Some e, d)
           | Inr (c', d1) \<Rightarrow> (None, d1)))"

definition item_pickup ::
  "db \<Rightarrow> nat \<Rightarrow> nat \<Rightarrow> string \<Rightarrow> string \<Rightarrow> error option \<times> db" where
  "item_pickup d character_id item_id location now =
     (case Character_findById d character_id of
        None \<Rightarrow> (Some (CharacterNotFound character_id), d)
      | Some character \<Rightarrow>
          (case Item_findById d item_id of
             None \<Rightarrow> (Some (ItemNotFound item_id), d)
           | Some item \<Rightarrow>
               if it_current_area_id item \<noteq> ch_current_area_id character
               then (Some ItemNotInCharactersArea, d)
               else
                 (case Item_giveToCharacter d item_id character_id location of
                    Inl e \<Rightarrow> (Some e, d)
                  | Inr (i', d1) \<Rightarrow>
                      (case (if truthy_num (ch_current_area_id character)
                             then executeTriggers d1 (the (ch_current_area_id character))
                                    ''item_picked_up''
                                    (event_of (Some character_id) (Some item_id) None)
                             else (None, d1)) of
                         (Some e, d2) \<Rightarrow> (Some e, d2)
                       | (None, d2) \<Rightarrow>
                           (case Character_addMemory d2 character_id
                                   (''picked up '' @ it_name item,
                                    ''now holding in '' @ location) now
                                   (memory_cap (ch_character_class character)) of
                              Inl e \<Rightarrow> (Some e, d2)
                            | Inr (c', d3) \<Rightarrow> (None, d3))))))"




subsection \<open>Session store\<close>

text \<open>
  The module-level \<open>sessions\<close> map of \<open>auth.js\<close>. Times are milliseconds since the
  epoch; the clock reading and the generated token are inputs of the model.
\<close>

record session =
  playerId :: string
  characterId :: nat
  createdAt :: int
  lastActivity :: int

type_synonym sessions = "string \<rightharpoonup> session"




definition endSession :: "sessions \<Rightarrow> string \<Rightarrow> sessions" where
  "endSession S token = S(token := None)"











subsection \<open>WebSocket transport\<close>






















subsection \<open>Concrete states\<close>

text \<open>Rows and databases on which the operations are evaluated below.\<close>

definition fx_mem :: "string \<Rightarrow> memory_entry" where
  "fx_mem a = \<lparr>mem_action = a, mem_result = ''done'', mem_timestamp = ''t0''\<rparr>"

definition fx_character :: character where
  "fx_character =
     \<lparr>ch_world_id = 1, ch_name = ''Ann'', ch_memory = [], ch_nutrition = 100,
      ch_hydration = 100, ch_damage = [], ch_tiredness = 0, ch_alertness = 100,
      ch_current_area_id = None, ch_owner_id = None, ch_character_class = Minor\<rparr>"

definition fx_area :: area where
  "fx_area =
     \<lparr>ar_world_id = 1, ar_name = ''Hall'', ar_description = ''A hall.'', ar_temperature = 20,
      ar_exits = Map.empty, ar_triggers = []\<rparr>"

definition fx_item :: item where
  "fx_item =
     \<lparr>it_world_id = 1, it_name = ''Torch'', it_description = ''A torch.'', it_properties = [],
      it_current_area_id = None, it_held_by_character_id = None, it_held_location = None\<rparr>"

definition fx_db :: db where
  "fx_db = \<lparr>worlds = {1, 2}, areas = Map.empty, characters = Map.empty, items = Map.empty,
            next_item_id = 1, trigger_events = []\<rparr>"

text \<open>A minor character whose memory holds five entries.\<close>

definition c5_character :: character where
  "c5_character = fx_character\<lparr>ch_memory := map fx_mem [''a'', ''b'', ''c'', ''d'', ''e'']\<rparr>"

definition c5_db :: db where
  "c5_db = fx_db\<lparr>characters := [1 \<mapsto> c5_character]\<rparr>"

text \<open>An area with two one-time triggers on the same event.\<close>

definition c6_first :: trigger where
  "c6_first =
     \<lparr>tr_condition = CondString ''character_enters'',
      tr_reactions = [modify_description None (Some ''A door creaks.'')], tr_one_time = True\<rparr>"

definition c6_second :: trigger where
  "c6_second =
     \<lparr>tr_condition = CondString ''character_enters'',
      tr_reactions = [modify_temperature None (Some (- 5))], tr_one_time = True\<rparr>"

definition c6_db :: db where
  "c6_db = fx_db\<lparr>areas := [10 \<mapsto> fx_area\<lparr>ar_triggers := [c6_first, c6_second]\<rparr>]\<rparr>"

text \<open>A speech condition with keywords and a character id, and the speech of another character.\<close>

definition c7_condition :: cond_object where
  "c7_condition =
     \<lparr>cond_type = Some ''character_speech'', cond_keywords = Some (KwArray [''open sesame'']),
      cond_character_id = Some 7, cond_item_id = None\<rparr>"

definition c7_trigger :: trigger where
  "c7_trigger =
     \<lparr>tr_condition = CondObject c7_condition,
      tr_reactions = [add_exit (Some ''secret'') (Some 42)], tr_one_time = True\<rparr>"

definition c7_event :: event_data where
  "c7_event = \<lparr>ev_character_id = Some 8, ev_item_id = None, ev_text = Some ''Open Sesame!''\<rparr>"

text \<open>
  Two characters without an area, one of them holding the torch, and a hall whose
  trigger would rewrite the hall's description on any pickup that reached it.
\<close>

definition c10_db :: db where
  "c10_db = fx_db\<lparr>
     areas := [10 \<mapsto> fx_area\<lparr>ar_triggers :=
        [\<lparr>tr_condition = CondString ''item_picked_up'',
          tr_reactions = [modify_description (Some ''The torch is gone.'') None],
          tr_one_time = False\<rparr>]\<rparr>],
     characters := [1 \<mapsto> fx_character, 2 \<mapsto> fx_character\<lparr>ch_name := ''Bob''\<rparr>],
     items := [30 \<mapsto> fx_item\<lparr>it_held_by_character_id := Some 2,
                                it_held_location := Some ''left hand''\<rparr>]\<rparr>"










text \<open>
  A hall with two triggers: entering it puts a key on the floor; anything dropped in it
  rewrites its description.
\<close>

definition c8_enter :: trigger where
  "c8_enter =
     \<lparr>tr_condition = CondString ''character_enters'',
      tr_reactions = [add_item (Some \<lparr>tpl_name = Some ''Key'', tpl_description = None,
                                       tpl_properties = None\<rparr>)],
      tr_one_time = False\<rparr>"

definition c8_dropped :: trigger where
  "c8_dropped =
     \<lparr>tr_condition = CondString ''item_dropped'',
      tr_reactions = [modify_description (Some ''Something lies on the floor.'') None],
      tr_one_time = False\<rparr>"

definition c8_db :: db where
  "c8_db = fx_db\<lparr>areas := [10 \<mapsto> fx_area\<lparr>ar_triggers := [c8_enter, c8_dropped]\<rparr>]\<rparr>"


subsection \<open>Predicates of the statements\<close>

text \<open>The database with every area's trigger list emptied.\<close>

definition area_without_triggers :: "area \<Rightarrow> area" where
  "area_without_triggers a = a\<lparr>ar_triggers := []\<rparr>"

definition without_triggers :: "db \<Rightarrow> db" where
  "without_triggers d = d\<lparr>areas := (\<lambda>k. map_option area_without_triggers (areas d k))\<rparr>"

text \<open>Lists of reactions run one list after the other, up to the first throw.\<close>

fun reactions_in_sequence ::
  "db \<Rightarrow> nat \<Rightarrow> reaction list list \<Rightarrow> event_data \<Rightarrow> error option \<times> db" where
  "reactions_in_sequence d areaId [] eventData = (None, d)"
| "reactions_in_sequence d areaId (rs # rest) eventData =
     (case executeReactions d areaId rs eventData of
        (Some e, d') \<Rightarrow> (Some e, d')
      | (None, d') \<Rightarrow> reactions_in_sequence d' areaId rest eventData)"

text \<open>
  The reaction lists of the triggers that match an event, in the order of the trigger
  list stored in the area when the event arrives.
\<close>

definition fired_reactions :: "db \<Rightarrow> nat \<Rightarrow> string \<Rightarrow> event_data \<Rightarrow> reaction list list" where
  "fired_reactions d areaId eventType eventData =
     (case Area_findById d areaId of
        None \<Rightarrow> []
      | Some a \<Rightarrow>
          map (\<lambda>(i, trg). tr_reactions trg)
            (matchedTriggers (ar_triggers a) eventType eventData))"

text \<open>The database once \<open>executeTriggers\<close> has been entered with an event.\<close>

definition event_recorded :: "db \<Rightarrow> nat \<Rightarrow> string \<Rightarrow> db" where
  "event_recorded d areaId eventType =
     d\<lparr>trigger_events := trigger_events d @ [(areaId, eventType)]\<rparr>"



section \<open>Properties\<close>

lemmas fx_defs = fx_mem_def fx_character_def fx_area_def fx_item_def fx_db_def

lemmas model_defs =
  Character_findById_def Character_update_def updated_character_def Character_addMemory_def
  no_character_patch_def numeric_5_2_def round_2dp_def round_half_away_def pct_check_def
  Item_findById_def Item_update_def updated_item_def no_item_patch_def Item_moveToArea_def
  Item_giveToCharacter_def Item_create_def Item_delete_def
  Area_findById_def Area_update_def updated_area_def no_area_patch_def area_patch_empty_def
  executeReactions_def executeTriggers_def matchedTriggers_def triggers_without_def
  shouldTriggerFire_def event_of_def Let_def


subsection \<open>What the trigger engine leaves alone\<close>

lemma Item_create_frame:
  assumes "Item_create d w nm ds ps a = Inr (n, d')"
  shows "characters d' = characters d \<and> areas d' = areas d
         \<and> trigger_events d' = trigger_events d \<and> worlds d' = worlds d"
  using assms by (auto simp: Item_create_def split: option.splits if_splits)

lemma Item_delete_frame:
  "characters (Item_delete d i) = characters d \<and> areas (Item_delete d i) = areas d
   \<and> trigger_events (Item_delete d i) = trigger_events d"
  by (simp add: Item_delete_def)

lemma Area_update_frame:
  assumes "Area_update d aid p = Inr (r, d')"
  shows "characters d' = characters d \<and> items d' = items d
         \<and> trigger_events d' = trigger_events d"
  using assms
  by (auto simp: Area_update_def split: option.splits if_splits sum.splits)

lemma Area_update_triggers:
  assumes "Area_update d aid p = Inr (r, d')" and "a_triggers p = None"
  shows "map_option ar_triggers (areas d' b) = map_option ar_triggers (areas d b)"
  using assms
  by (auto simp: Area_update_def updated_area_def split: option.splits if_splits sum.splits)

lemma apply_reaction_frame:
  assumes "apply_reaction areaId area r (d, u) = Inr (d', u')"
  shows "characters d' = characters d \<and> areas d' = areas d
         \<and> trigger_events d' = trigger_events d
         \<and> (a_triggers u = None \<longrightarrow> a_triggers u' = None)"
  using assms
  by (cases "(areaId, area, r, (d, u))" rule: apply_reaction.cases)
     (auto simp: Item_delete_frame dest: Item_create_frame split: sum.splits if_splits option.splits)

lemma apply_reactions_frame:
  assumes "apply_reactions areaId area rs (d, u) = (e, d', u')"
  shows "characters d' = characters d \<and> areas d' = areas d
         \<and> trigger_events d' = trigger_events d
         \<and> (a_triggers u = None \<longrightarrow> a_triggers u' = None)"
  using assms
proof (induction rs arbitrary: d u)
  case Nil
  then show ?case by simp
next
  case (Cons r rs)
  show ?case
  proof (cases "apply_reaction areaId area r (d, u)")
    case (Inl err)
    with Cons.prems show ?thesis by simp
  next
    case (Inr du)
    obtain d1 u1 where du: "du = (d1, u1)" by (cases du)
    from Inr du Cons.prems have "apply_reactions areaId area rs (d1, u1) = (e, d', u')" by simp
    from Cons.IH[OF this] apply_reaction_frame[OF Inr[unfolded du]]
    show ?thesis by simp
  qed
qed

lemma executeReactions_frame:
  assumes "executeReactions d areaId rs ev = (e, d')"
  shows "characters d' = characters d \<and> trigger_events d' = trigger_events d
         \<and> map_option ar_triggers (areas d' b) = map_option ar_triggers (areas d b)"
proof (cases "rs = []")
  case True
  with assms show ?thesis by (simp add: executeReactions_def)
next
  case False
  obtain e1 d1 u1 where ar: "apply_reactions areaId (Area_findById d areaId) rs (d, no_area_patch) = (e1, d1, u1)"
    by (cases "apply_reactions areaId (Area_findById d areaId) rs (d, no_area_patch)") auto
  from apply_reactions_frame[OF ar]
  have fr: "characters d1 = characters d" "areas d1 = areas d" "trigger_events d1 = trigger_events d"
    "a_triggers u1 = None" by (simp_all add: no_area_patch_def)
  show ?thesis
  proof (cases e1)
    case (Some err)
    with assms False ar fr show ?thesis by (simp add: executeReactions_def)
  next
    case None
    show ?thesis
    proof (cases "area_patch_empty u1")
      case True
      with assms False ar fr None show ?thesis by (simp add: executeReactions_def)
    next
      case ne: False
      show ?thesis
      proof (cases "Area_update d1 areaId u1")
        case (Inl err)
        with assms False ar fr None ne show ?thesis by (simp add: executeReactions_def)
      next
        case (Inr rd)
        obtain r d2 where rd: "rd = (r, d2)" by (cases rd)
        from assms False ar None ne Inr rd have "d' = d2" by (simp add: executeReactions_def)
        with Area_update_frame[OF Inr[unfolded rd]] Area_update_triggers[OF Inr[unfolded rd] fr(4), of b] fr
        show ?thesis by simp
      qed
    qed
  qed
qed

lemma run_matched_frame:
  assumes "run_matched d areaId ts ms ev = (e, d')"
  shows "characters d' = characters d \<and> trigger_events d' = trigger_events d"
  using assms
proof (induction ms arbitrary: d)
  case Nil
  then show ?case by simp
next
  case (Cons m ms)
  obtain i trg where m: "m = (i, trg)" by (cases m)
  obtain e1 d1 where er: "executeReactions d areaId (tr_reactions trg) ev = (e1, d1)"
    by (cases "executeReactions d areaId (tr_reactions trg) ev")
  from executeReactions_frame[OF er]
  have fr: "characters d1 = characters d" "trigger_events d1 = trigger_events d" by simp_all
  show ?case
  proof (cases e1)
    case (Some err)
    with Cons.prems m er fr show ?thesis by simp
  next
    case None
    show ?thesis
    proof (cases "tr_one_time trg")
      case False
      with Cons.prems m er None have "run_matched d1 areaId ts ms ev = (e, d')" by simp
      from Cons.IH[OF this] fr show ?thesis by simp
    next
      case True
      show ?thesis
      proof (cases "Area_update d1 areaId (no_area_patch\<lparr>a_triggers := Some (triggers_without i ts)\<rparr>)")
        case (Inl err)
        with Cons.prems m er None True fr show ?thesis by simp
      next
        case (Inr rd)
        obtain r d2 where rd: "rd = (r, d2)" by (cases rd)
        from Cons.prems m er None True Inr rd have "run_matched d2 areaId ts ms ev = (e, d')" by simp
        from Cons.IH[OF this] Area_update_frame[OF Inr[unfolded rd]] fr show ?thesis by simp
      qed
    qed
  qed
qed

lemma executeTriggers_frame:
  assumes "executeTriggers d areaId et ev = (e, d')"
  shows "characters d' = characters d \<and> trigger_events d' = trigger_events d @ [(areaId, et)]"
proof -
  let ?d0 = "d\<lparr>trigger_events := trigger_events d @ [(areaId, et)]\<rparr>"
  show ?thesis
  proof (cases "Area_findById ?d0 areaId")
    case None
    with assms show ?thesis by (auto simp: executeTriggers_def Let_def)
  next
    case (Some a)
    show ?thesis
    proof (cases "ar_triggers a = []")
      case True
      with assms Some show ?thesis by (auto simp: executeTriggers_def Let_def)
    next
      case False
      with assms Some have "run_matched ?d0 areaId (ar_triggers a) (matchedTriggers (ar_triggers a) et ev) ev = (e, d')"
        by (simp add: executeTriggers_def Let_def)
      from run_matched_frame[OF this] show ?thesis by simp
    qed
  qed
qed

subsection \<open>Memory cap\<close>

text \<open>
  C5 (memory cap on every append, also from a memory already over the cap). The append
  drops one entry at most: a minor character whose memory holds five entries holds five
  after \<open>character_add_memory\<close>, above the cap of three.
\<close>

theorem addMemory_drops_one_entry_only:
  "ch_character_class c5_character = Minor \<and> length (ch_memory c5_character) = 5
   \<and> (\<exists>d'. character_add_memory c5_db 1 ''f'' ''done'' ''t0'' = (None, d')
        \<and> map_option ch_memory (characters d' 1)
            = Some (map fx_mem [''b'', ''c'', ''d'', ''e'', ''f'']))"
  by (simp add: c5_character_def c5_db_def fx_defs character_add_memory_def model_defs)

subsection \<open>One-time triggers\<close>

text \<open>
  C6 (every matching one-time trigger is gone after \<open>executeTriggers\<close>). With two
  one-time triggers matching one event, each removal filters the list read at the
  start, so the second write puts the first trigger back: the stored list still holds
  it, although both triggers ran (the temperature fell by five degrees).
\<close>

theorem executeTriggers_keeps_first_of_two_one_time_triggers:
  "tr_one_time c6_first
   \<and> shouldTriggerFire c6_first ''character_enters'' (event_of (Some 1) None None)
   \<and> tr_one_time c6_second
   \<and> shouldTriggerFire c6_second ''character_enters'' (event_of (Some 1) None None)
   \<and> (\<exists>d'. executeTriggers c6_db 10 ''character_enters'' (event_of (Some 1) None None)
             = (None, d')
        \<and> map_option ar_triggers (areas d' 10) = Some [c6_first]
        \<and> map_option ar_temperature (areas d' 10) = Some 15)"
  by (simp add: c6_first_def c6_second_def c6_db_def fx_defs model_defs enumerate_eq_zip upt_rec)

subsection \<open>Condition matching\<close>

text \<open>
  C7 (an object condition matches iff type, keywords and ids all agree). On a speech
  event the keyword branch of \<open>shouldTriggerFire\<close> returns before the id checks: a
  condition for character 7 fires on the words of character 8, where the conjunction
  of the specification does not hold.
\<close>

theorem shouldTriggerFire_keywords_skip_character_id:
  "shouldTriggerFire c7_trigger ''character_speech'' c7_event
   \<and> \<not> spec_condition_matches c7_condition ''character_speech'' c7_event"
  by (simp add: c7_trigger_def c7_condition_def c7_event_def shouldTriggerFire_def
        spec_condition_matches_def toLowerCase_def)

subsection \<open>Reactions do not re-enter the engine\<close>

text \<open>
  Reactions are blind to triggers: run in the database with every trigger list
  emptied, they end with the same outcome and the same database, up to the trigger
  lists.
\<close>

lemma without_triggers_fields:
  "areas (without_triggers d) k = map_option area_without_triggers (areas d k)"
  "characters (without_triggers d) = characters d"
  "items (without_triggers d) = items d"
  "worlds (without_triggers d) = worlds d"
  "next_item_id (without_triggers d) = next_item_id d"
  "trigger_events (without_triggers d) = trigger_events d"
  by (simp_all add: without_triggers_def)

lemma without_triggers_dom: "dom (areas (without_triggers d)) = dom (areas d)"
  by (auto simp: without_triggers_def dom_def)

lemma without_triggers_items_update:
  "without_triggers (d\<lparr>items := f, next_item_id := n\<rparr>)
     = (without_triggers d)\<lparr>items := f, next_item_id := n\<rparr>"
  "without_triggers (d\<lparr>items := f\<rparr>) = (without_triggers d)\<lparr>items := f\<rparr>"
  by (simp_all add: without_triggers_def)

lemma area_ref_ok_without: "area_ref_ok (without_triggers d) r = area_ref_ok d r"
  by (cases "(d, r)" rule: area_ref_ok.cases) (simp_all add: without_triggers_dom)

lemma Item_create_without:
  "Item_create (without_triggers d) w nm ds ps a =
     (case Item_create d w nm ds ps a of
        Inl e \<Rightarrow> Inl e
      | Inr (n, d') \<Rightarrow> Inr (n, without_triggers d'))"
  by (simp add: Item_create_def without_triggers_items_update without_triggers_fields
        area_ref_ok_without split: option.splits)

lemma Item_delete_without:
  "Item_delete (without_triggers d) i = without_triggers (Item_delete d i)"
  by (simp add: Item_delete_def without_triggers_items_update without_triggers_fields)

lemma area_without_fields:
  "ar_world_id (area_without_triggers a) = ar_world_id a"
  "ar_exits (area_without_triggers a) = ar_exits a"
  "ar_description (area_without_triggers a) = ar_description a"
  "ar_temperature (area_without_triggers a) = ar_temperature a"
  "ar_triggers (area_without_triggers a) = []"
  by (simp_all add: area_without_triggers_def)

lemmas without_simps =
  without_triggers_fields without_triggers_dom area_ref_ok_without area_without_fields

lemma apply_reaction_without:
  "apply_reaction areaId (map_option area_without_triggers area) r (without_triggers d, u) =
     (case apply_reaction areaId area r (d, u) of
        Inl e \<Rightarrow> Inl e
      | Inr (d', u') \<Rightarrow> Inr (without_triggers d', u'))"
  by (cases "(areaId, area, r, (d, u))" rule: apply_reaction.cases)
     (auto simp: Item_create_without Item_delete_without without_simps
           split: sum.splits option.splits)

lemma apply_reactions_without:
  "apply_reactions areaId (map_option area_without_triggers area) rs (without_triggers d, u) =
     (case apply_reactions areaId area rs (d, u) of
        (e, d', u') \<Rightarrow> (e, without_triggers d', u'))"
proof (induction rs arbitrary: d u)
  case Nil
  then show ?case by simp
next
  case (Cons r rs)
  show ?case
  proof (cases "apply_reaction areaId area r (d, u)")
    case (Inl e)
    then show ?thesis by (simp add: apply_reaction_without)
  next
    case (Inr du)
    obtain d1 u1 where "du = (d1, u1)" by (cases du)
    with Inr Cons.IH[of d1 u1] show ?thesis by (simp add: apply_reaction_without)
  qed
qed

lemma updated_area_without:
  assumes "a_triggers u = None"
  shows "updated_area u (area_without_triggers a) =
           (case updated_area u a of Inl e \<Rightarrow> Inl e | Inr a' \<Rightarrow> Inr (area_without_triggers a'))"
  using assms
  by (simp add: updated_area_def area_without_triggers_def split: option.splits)

lemma without_triggers_area_update:
  "without_triggers (d\<lparr>areas := (areas d)(k \<mapsto> a)\<rparr>)
     = (without_triggers d)\<lparr>areas := (areas (without_triggers d))(k \<mapsto> area_without_triggers a)\<rparr>"
  by (auto simp: without_triggers_def fun_eq_iff)

lemma Area_update_without:
  assumes "a_triggers u = None"
  shows "Area_update (without_triggers d) areaId u =
           (case Area_update d areaId u of
              Inl e \<Rightarrow> Inl e
            | Inr (r, d') \<Rightarrow> Inr (map_option area_without_triggers r, without_triggers d'))"
  using assms
  by (auto simp: Area_update_def Area_findById_def updated_area_without
        without_triggers_area_update without_simps split: option.splits sum.splits)

lemma executeReactions_without:
  "executeReactions (without_triggers d) areaId rs ev =
     (fst (executeReactions d areaId rs ev), without_triggers (snd (executeReactions d areaId rs ev)))"
proof (cases "rs = []")
  case True
  then show ?thesis by (simp add: executeReactions_def)
next
  case False
  obtain e1 d1 u1 where ar:
    "apply_reactions areaId (Area_findById d areaId) rs (d, no_area_patch) = (e1, d1, u1)"
    by (cases "apply_reactions areaId (Area_findById d areaId) rs (d, no_area_patch)") auto
  from apply_reactions_frame[OF ar] have u1: "a_triggers u1 = None"
    by (simp add: no_area_patch_def)
  have ar': "apply_reactions areaId (Area_findById (without_triggers d) areaId) rs
               (without_triggers d, no_area_patch) = (e1, without_triggers d1, u1)"
    using apply_reactions_without[of areaId "Area_findById d areaId" rs d no_area_patch] ar
    by (simp add: Area_findById_def without_simps)
  show ?thesis
    using False ar ar' Area_update_without[OF u1, of d1 areaId]
    by (auto simp: executeReactions_def without_simps
          split: option.splits sum.splits prod.splits)
qed

lemma Area_update_triggers_only:
  "\<exists>r d2. Area_update d areaId (no_area_patch\<lparr>a_triggers := Some ts\<rparr>) = Inr (r, d2)
          \<and> without_triggers d2 = without_triggers d"
  by (cases "areas d areaId")
     (auto simp: Area_update_def updated_area_def no_area_patch_def without_triggers_def
        area_without_triggers_def fun_eq_iff)

lemma run_matched_without:
  "(fst (run_matched d areaId ts ms ev), without_triggers (snd (run_matched d areaId ts ms ev)))
     = reactions_in_sequence (without_triggers d) areaId
         (map (\<lambda>(i, trg). tr_reactions trg) ms) ev"
proof (induction ms arbitrary: d)
  case Nil
  then show ?case by simp
next
  case (Cons m ms)
  obtain i trg where m: "m = (i, trg)" by (cases m)
  obtain e1 d1 where er: "executeReactions d areaId (tr_reactions trg) ev = (e1, d1)"
    by (cases "executeReactions d areaId (tr_reactions trg) ev")
  then have er': "executeReactions (without_triggers d) areaId (tr_reactions trg) ev
                    = (e1, without_triggers d1)"
    by (simp add: executeReactions_without)
  show ?case
  proof (cases e1)
    case (Some e)
    with m er er' show ?thesis by simp
  next
    case None
    show ?thesis
    proof (cases "tr_one_time trg")
      case False
      with m er er' None Cons.IH[of d1] show ?thesis by simp
    next
      case True
      from Area_update_triggers_only[of d1 areaId "triggers_without i ts"]
      obtain r d2 where
        up: "Area_update d1 areaId (no_area_patch\<lparr>a_triggers := Some (triggers_without i ts)\<rparr>)
               = Inr (r, d2)"
        and same: "without_triggers d2 = without_triggers d1" by blast
      with m er er' None True Cons.IH[of d2] show ?thesis by simp
    qed
  qed
qed

lemma executeTriggers_without:
  "(fst (executeTriggers d areaId et ev), without_triggers (snd (executeTriggers d areaId et ev)))
     = reactions_in_sequence (without_triggers (event_recorded d areaId et)) areaId
         (fired_reactions d areaId et ev) ev"
proof (cases "areas d areaId")
  case None
  then show ?thesis
    by (simp add: executeTriggers_def fired_reactions_def Area_findById_def event_recorded_def
          Let_def)
next
  case (Some a)
  show ?thesis
  proof (cases "ar_triggers a = []")
    case True
    with Some show ?thesis
      by (simp add: executeTriggers_def fired_reactions_def Area_findById_def
            event_recorded_def Let_def matchedTriggers_def)
  next
    case False
    with Some show ?thesis
      using run_matched_without[of "event_recorded d areaId et" areaId "ar_triggers a"
              "matchedTriggers (ar_triggers a) et ev" ev]
      by (simp add: executeTriggers_def fired_reactions_def Area_findById_def
            event_recorded_def Let_def)
  qed
qed

text \<open>
  C8 (no reaction emits an event; a reaction whose effect would satisfy a trigger of
  the same area does not fire it within the same \<open>executeTriggers\<close> call). Running a
  list of reactions hands no event to the trigger engine, changes no trigger list, and
  does in a database without any trigger what it does in the real one. One call of
  \<open>executeTriggers\<close> records its own event only, and its outcome and database are, up
  to the trigger lists, those of running in a database without any trigger the
  reactions of the triggers that match the arriving event in the list stored on
  arrival, each list once and in order: what runs is fixed before the first reaction
  runs. In the hall where entering adds a key and a dropped item rewrites the
  description, an entering character gets the key added and the description stays.
\<close>

theorem reactions_emit_no_event:
  "trigger_events (snd (executeReactions d areaId reactions eventData)) = trigger_events d
   \<and> map_option ar_triggers (areas (snd (executeReactions d areaId reactions eventData)) b)
       = map_option ar_triggers (areas d b)
   \<and> trigger_events (snd (executeTriggers d areaId eventType eventData))
       = trigger_events d @ [(areaId, eventType)]
   \<and> executeReactions (without_triggers d) areaId reactions eventData
       = (fst (executeReactions d areaId reactions eventData),
          without_triggers (snd (executeReactions d areaId reactions eventData)))
   \<and> (fst (executeTriggers d areaId eventType eventData),
       without_triggers (snd (executeTriggers d areaId eventType eventData)))
       = reactions_in_sequence (without_triggers (event_recorded d areaId eventType)) areaId
           (fired_reactions d areaId eventType eventData) eventData
   \<and> fired_reactions c8_db 10 ''character_enters'' (event_of (Some 1) None None)
       = [tr_reactions c8_enter]
   \<and> fst (executeTriggers c8_db 10 ''character_enters'' (event_of (Some 1) None None)) = None
   \<and> map_option it_name
         (items (snd (executeTriggers c8_db 10 ''character_enters'' (event_of (Some 1) None None))) 1)
       = Some ''Key''
   \<and> map_option ar_description
         (areas (snd (executeTriggers c8_db 10 ''character_enters'' (event_of (Some 1) None None))) 10)
       = Some ''A hall.''"
proof -
  have concrete:
    "fired_reactions c8_db 10 ''character_enters'' (event_of (Some 1) None None)
       = [tr_reactions c8_enter]
     \<and> fst (executeTriggers c8_db 10 ''character_enters'' (event_of (Some 1) None None)) = None
     \<and> map_option it_name
         (items (snd (executeTriggers c8_db 10 ''character_enters'' (event_of (Some 1) None None))) 1)
       = Some ''Key''
     \<and> map_option ar_description
         (areas (snd (executeTriggers c8_db 10 ''character_enters'' (event_of (Some 1) None None))) 10)
       = Some ''A hall.''"
    by (simp add: c8_db_def c8_enter_def c8_dropped_def fired_reactions_def fx_defs model_defs
          enumerate_eq_zip upt_rec)
  show ?thesis
    using executeReactions_frame [of d areaId reactions eventData
            "fst (executeReactions d areaId reactions eventData)"
            "snd (executeReactions d areaId reactions eventData)" b]
          executeTriggers_frame [of d areaId eventType eventData
            "fst (executeTriggers d areaId eventType eventData)"
            "snd (executeTriggers d areaId eventType eventData)"]
          executeReactions_without [of d areaId reactions eventData]
          executeTriggers_without [of d areaId eventType eventData]
          concrete
    by simp
qed

subsection \<open>Pickup with no area on either side\<close>

text \<open>
  C10 (for some input, a character without an area picks up an item without an area).
  The caller and the item held by another character both have \<open>current_area_id\<close>
  \<open>null\<close>; the area comparison passes, the item changes hands, no event reaches the
  trigger engine and no area is touched.
\<close>

theorem item_pickup_null_area_takes_held_item:
  "map_option ch_current_area_id (characters c10_db 1) = Some None
   \<and> map_option it_current_area_id (items c10_db 30) = Some None
   \<and> map_option it_held_by_character_id (items c10_db 30) = Some (Some 2)
   \<and> (\<exists>d'. item_pickup c10_db 1 30 ''right hand'' ''t1'' = (None, d')
        \<and> items d' 30 = Some (fx_item\<lparr>it_held_by_character_id := Some 1,
                                       it_held_location := Some ''right hand''\<rparr>)
        \<and> trigger_events d' = [] \<and> areas d' = areas c10_db)"
  by (simp add: c10_db_def fx_defs item_pickup_def model_defs)

subsection \<open>Remote tool calls and sessions\<close>



subsection \<open>State updates\<close>







subsection \<open>Movement\<close>






subsection \<open>Pickup\<close>







subsection \<open>Sessions and ownership\<close>












end
